theory Spec2Isabelle
  imports Main "HOL-Library.Sublist"
begin

section \<open>JavaScript strings\<close>

text \<open>
  A JavaScript string is a sequence of UTF-16 code units; \<open>length\<close>, \<open>slice\<close>, \<open>split\<close>
  and the regular expressions of the scripts (none has the \<open>u\<close> flag) all work on code
  units. A string is therefore modelled as the list of its code units, each a natural
  number. ASCII literals are written with \<open>asc\<close>; Japanese literals are written as their
  code units in hexadecimal.
\<close>

type_synonym jsstring = "nat list"

definition asc :: "string \<Rightarrow> jsstring" where
  "asc s = map of_char s"

text \<open>
  The characters that \<open>trim\<close>, \<open>trimEnd\<close> and the class \<open>\s\<close> treat as white space
  (ECMAScript WhiteSpace and LineTerminator), and the characters that \<open>.\<close> refuses
  (LineTerminator).
\<close>

definition isLineTerminator :: "nat \<Rightarrow> bool" where
  "isLineTerminator c = (c = 0x0A \<or> c = 0x0D \<or> c = 0x2028 \<or> c = 0x2029)"

definition isWS :: "nat \<Rightarrow> bool" where
  "isWS c = (c = 0x09 \<or> c = 0x0A \<or> c = 0x0B \<or> c = 0x0C \<or> c = 0x0D \<or> c = 0x20
     \<or> c = 0xA0 \<or> c = 0x1680 \<or> (0x2000 \<le> c \<and> c \<le> 0x200A)
     \<or> c = 0x2028 \<or> c = 0x2029 \<or> c = 0x202F \<or> c = 0x205F \<or> c = 0x3000 \<or> c = 0xFEFF)"

definition isDot :: "nat \<Rightarrow> bool" where
  "isDot c = (\<not> isLineTerminator c)"

definition trimStart :: "jsstring \<Rightarrow> jsstring" where
  "trimStart s = dropWhile isWS s"

definition trimEnd :: "jsstring \<Rightarrow> jsstring" where
  "trimEnd s = rev (dropWhile isWS (rev s))"

definition trim :: "jsstring \<Rightarrow> jsstring" where
  "trim s = trimEnd (trimStart s)"

text \<open>\<open>s.split(sep)\<close> for a one-character separator: never empty, \<open>''.split(sep) = ['']\<close>.\<close>

fun split_on :: "nat \<Rightarrow> jsstring \<Rightarrow> jsstring list" where
  "split_on sep [] = [[]]"
| "split_on sep (c # cs) =
     (if c = sep then [] # split_on sep cs
      else (case split_on sep cs of
              [] \<Rightarrow> [[c]]
            | l # ls \<Rightarrow> (c # l) # ls))"

text \<open>\<open>xs.join(sep)\<close>.\<close>

fun join :: "jsstring \<Rightarrow> jsstring list \<Rightarrow> jsstring" where
  "join sep [] = []"
| "join sep [x] = x"
| "join sep (x # y # ys) = x @ sep @ join sep (y # ys)"

text \<open>\<open>s.replace(/c/g, r)\<close> for a single literal character \<open>c\<close>.\<close>

definition replaceAll :: "nat \<Rightarrow> jsstring \<Rightarrow> jsstring \<Rightarrow> jsstring" where
  "replaceAll c r s = concat (map (\<lambda>x. if x = c then r else [x]) s)"

text \<open>
  The tail \<open>\s+(.+)\<close> of the heading and list patterns, matched against the rest of the
  line: \<open>\s+\<close> is greedy and gives characters back one at a time until \<open>.+\<close> finds at
  least one character that is not a line terminator; the group is then the longest run
  of such characters (nothing follows the group in the pattern). \<open>rx_backtrack k s\<close>
  tries \<open>\s+\<close> with \<open>k\<close>, \<open>k - 1\<close>, ..., \<open>1\<close> characters.
\<close>

fun rx_backtrack :: "nat \<Rightarrow> jsstring \<Rightarrow> jsstring option" where
  "rx_backtrack 0 s = None"
| "rx_backtrack (Suc k) s =
     (let g = takeWhile isDot (drop (Suc k) s)
      in if g \<noteq> [] then Some g else rx_backtrack k s)"

definition rx_ws_group :: "jsstring \<Rightarrow> jsstring option" where
  "rx_ws_group s = rx_backtrack (length (takeWhile isWS s)) s"

text \<open>\<open>line.match(/^p\s+(.+)/)\<close> for a literal \<open>p\<close>: the group, or \<open>None\<close> for \<open>null\<close>.\<close>

definition match_heading :: "jsstring \<Rightarrow> jsstring \<Rightarrow> jsstring option" where
  "match_heading p line =
     (if prefix p line then rx_ws_group (drop (length p) line) else None)"

text \<open>\<open>line.match(/^[-*]\s+(.+)/)\<close>.\<close>

definition match_li :: "jsstring \<Rightarrow> jsstring option" where
  "match_li line =
     (case line of
        [] \<Rightarrow> None
      | c # cs \<Rightarrow> if c = 0x2D \<or> c = 0x2A then rx_ws_group cs else None)"

section \<open>Text to HTML (\<open>textToHtml\<close>)\<close>

text \<open>
  \<open>esc\<close>: three global replacements in the order of the source, \<open>&\<close> first.
\<close>

definition esc :: "jsstring \<Rightarrow> jsstring" where
  "esc s = replaceAll 0x3E (asc ''&gt;'')
             (replaceAll 0x3C (asc ''&lt;'')
               (replaceAll 0x26 (asc ''&amp;'') s))"

text \<open>The two variables the loop of \<open>textToHtml\<close> mutates.\<close>

record html_state =
  html :: "jsstring list"
  inList :: bool

definition push :: "jsstring \<Rightarrow> html_state \<Rightarrow> html_state" where
  "push e st = st\<lparr>html := html st @ [e]\<rparr>"

definition closeList :: "html_state \<Rightarrow> html_state" where
  "closeList st =
     (if inList st then (push (asc ''</ul>'') st)\<lparr>inList := False\<rparr> else st)"

definition element :: "string \<Rightarrow> jsstring \<Rightarrow> jsstring" where
  "element tag s = asc ''<'' @ asc tag @ asc ''>'' @ esc s @ asc ''</'' @ asc tag @ asc ''>''"

text \<open>One iteration of the loop over the lines, with each \<open>continue\<close> a branch.\<close>

definition html_line :: "html_state \<Rightarrow> jsstring \<Rightarrow> html_state" where
  "html_line st raw =
     (let line = trimEnd raw in
      case match_heading (asc ''###'') line of
        Some g \<Rightarrow> push (element ''h3'' g) (closeList st)
      | None \<Rightarrow>
      (case match_heading (asc ''##'') line of
        Some g \<Rightarrow> push (element ''h2'' g) (closeList st)
      | None \<Rightarrow>
      (case match_heading (asc ''#'') line of
        Some g \<Rightarrow> push (element ''h1'' g) (closeList st)
      | None \<Rightarrow>
      (case match_li line of
        Some g \<Rightarrow>
          push (element ''li'' g)
            (if \<not> inList st then (push (asc ''<ul>'') st)\<lparr>inList := True\<rparr> else st)
      | None \<Rightarrow>
          (let st1 = (if inList st then closeList st else st) in
           if trim line = [] then closeList st1
           else push (element ''p'' line) st1)))))"

definition textToHtml :: "jsstring \<Rightarrow> jsstring" where
  "textToHtml text =
     join (asc [CHR 0x0A])
       (html (closeList (foldl html_line \<lparr>html = [], inList = False\<rparr> (split_on 0x0A text))))"

section \<open>Metadata (\<open>generateTitle\<close>, \<open>detectCategory\<close>, \<open>generateDescription\<close>)\<close>

text \<open>
  The functions of this section and \<open>textToHtml\<close>, \<open>selectBestImage\<close> are the same,
  statement for statement, in both versions of the publishing script.
\<close>

text \<open>\<open>s.replace(/^#+\s*/, '')\<close>: both quantifiers are greedy and nothing follows them.\<close>

definition strip_heading :: "jsstring \<Rightarrow> jsstring" where
  "strip_heading s =
     (if takeWhile (\<lambda>c. c = 0x23) s = [] then s
      else dropWhile isWS (dropWhile (\<lambda>c. c = 0x23) s))"

text \<open>The placeholder title, U+7121 U+984C U+306E U+8A18 U+4E8B.\<close>

definition untitled :: jsstring where
  "untitled = [0x7121, 0x984C, 0x306E, 0x8A18, 0x4E8B]"

definition generateTitle :: "jsstring \<Rightarrow> jsstring" where
  "generateTitle text =
     (let lines = filter (\<lambda>l. length (trim l) > 0) (split_on 0x0A text) in
      if length lines = 0 then untitled
      else
        (let title = trim (strip_heading (lines ! 0)) in
         if length title > 60 then take 57 title @ asc ''...'' else title))"

text \<open>\<open>CATEGORIES\<close> and \<open>CATEGORY_KEYWORDS\<close>, the latter in its order of declaration.\<close>

definition cat_interview :: jsstring where
  "cat_interview = [0x30A4, 0x30F3, 0x30BF, 0x30D3, 0x30E5, 0x30FC]"

definition cat_culture :: jsstring where
  "cat_culture = [0x793E, 0x98A8]"

definition cat_system :: jsstring where
  "cat_system = [0x5236, 0x5EA6]"

definition cat_event :: jsstring where
  "cat_event = [0x30A4, 0x30D9, 0x30F3, 0x30C8]"

definition CATEGORIES :: "jsstring list" where
  "CATEGORIES = [cat_interview, cat_culture, cat_system, cat_event]"

definition kw_interview :: "jsstring list" where
  "kw_interview =
     [[0x30A4, 0x30F3, 0x30BF, 0x30D3, 0x30E5, 0x30FC],
      [0x805E, 0x3044, 0x3066],
      [0x8A71, 0x3092],
      [0x0051, 0x0026, 0x0041],
      [0x8CEA, 0x554F],
      [0x5165, 0x793E, 0x7406, 0x7531],
      [0x4E00, 0x65E5, 0x306E, 0x6D41, 0x308C],
      [0x5148, 0x8F29],
      [0x793E, 0x54E1, 0x7D39, 0x4ECB]]"

definition kw_culture :: "jsstring list" where
  "kw_culture =
     [[0x793E, 0x98A8],
      [0x96F0, 0x56F2, 0x6C17],
      [0x30AB, 0x30EB, 0x30C1, 0x30E3, 0x30FC],
      [0x6587, 0x5316],
      [0x30C1, 0x30FC, 0x30E0],
      [0x8077, 0x5834],
      [0x30AA, 0x30D5, 0x30A3, 0x30B9],
      [0x50CD, 0x304D, 0x65B9],
      [0x30B3, 0x30DF, 0x30E5, 0x30CB, 0x30B1, 0x30FC, 0x30B7, 0x30E7, 0x30F3]]"

definition kw_system :: "jsstring list" where
  "kw_system =
     [[0x5236, 0x5EA6],
      [0x798F, 0x5229, 0x539A, 0x751F],
      [0x7814, 0x4FEE],
      [0x8A55, 0x4FA1],
      [0x4F11, 0x6687],
      [0x624B, 0x5F53],
      [0x30AD, 0x30E3, 0x30EA, 0x30A2],
      [0x6559, 0x80B2],
      [0x652F, 0x63F4]]"

definition kw_event :: "jsstring list" where
  "kw_event =
     [[0x30A4, 0x30D9, 0x30F3, 0x30C8],
      [0x61C7, 0x89AA, 0x4F1A],
      [0x52C9, 0x5F37, 0x4F1A],
      [0x30BB, 0x30DF, 0x30CA, 0x30FC],
      [0x4EA4, 0x6D41],
      [0x958B, 0x50AC],
      [0x53C2, 0x52A0],
      [0x30CF, 0x30C3, 0x30AB, 0x30BD, 0x30F3],
      [0x5FD8, 0x5E74, 0x4F1A]]"

definition CATEGORY_KEYWORDS :: "(jsstring \<times> jsstring list) list" where
  "CATEGORY_KEYWORDS =
     [(cat_interview, kw_interview), (cat_culture, kw_culture),
      (cat_system, kw_system), (cat_event, kw_event)]"

text \<open>
  \<open>new RegExp(kw, 'gi')\<close>. No keyword contains a character that is special in a
  pattern, so each is a literal. With the flag \<open>i\<close> (and no \<open>u\<close>) two code units
  match when their canonical forms agree, the canonical form being the upper case of the
  code unit. \<open>canon\<close> is that map on the ASCII letters and the identity elsewhere: the
  keywords consist of \<open>Q\<close>, \<open>&\<close>, \<open>A\<close>, kana and ideographs, and no code unit
  other than \<open>q\<close>, \<open>a\<close> has one of these as its upper case, so for these keywords the
  matches are those of the engine.
\<close>

definition canon :: "nat \<Rightarrow> nat" where
  "canon c = (if 0x61 \<le> c \<and> c \<le> 0x7A then c - 0x20 else c)"

fun matchAt :: "jsstring \<Rightarrow> jsstring \<Rightarrow> bool" where
  "matchAt [] s = True"
| "matchAt (k # ks) [] = False"
| "matchAt (k # ks) (c # cs) = (canon k = canon c \<and> matchAt ks cs)"

text \<open>
  \<open>text.match(regex)\<close> with the flag \<open>g\<close>: the matches are found from left to right,
  each search resuming where the previous match ended (one further for an empty match);
  \<open>matchCount\<close> is the length of the array, \<open>0\<close> standing for \<open>null\<close>.
\<close>

function matchCount :: "jsstring \<Rightarrow> jsstring \<Rightarrow> nat" where
  "matchCount kw [] = (if kw = [] then 1 else 0)"
| "matchCount kw (c # cs) =
     (if matchAt kw (c # cs) then 1 + matchCount kw (drop (length kw - 1) cs)
      else matchCount kw cs)"
  by pat_completeness auto
termination
  by (relation "measure (\<lambda>(kw, s). length s)") auto

definition scores :: "jsstring \<Rightarrow> (jsstring \<times> nat) list" where
  "scores text =
     map (\<lambda>(cat, kws). (cat, sum_list (map (\<lambda>kw. matchCount kw text) kws)))
       CATEGORY_KEYWORDS"

definition detectCategory :: "jsstring \<Rightarrow> jsstring" where
  "detectCategory text =
     fst (foldl (\<lambda>(best, bestScore) (cat, score).
                  if score > bestScore then (cat, score) else (best, bestScore))
            (CATEGORIES ! 0, 0) (scores text))"

text \<open>\<open>s.replace(/\s+/g, ' ')\<close>: every maximal run of white space becomes one space.\<close>

function collapse_ws :: "jsstring \<Rightarrow> jsstring" where
  "collapse_ws [] = []"
| "collapse_ws (c # cs) =
     (if isWS c then 0x20 # collapse_ws (dropWhile isWS cs) else c # collapse_ws cs)"
  by pat_completeness auto
termination
  by (relation "measure length") (auto simp: length_dropWhile_le less_Suc_eq_le)

definition generateDescription :: "jsstring \<Rightarrow> jsstring" where
  "generateDescription text =
     (let lines = filter (\<lambda>l. length (trim l) > 0) (split_on 0x0A text);
          body = trim (collapse_ws (join (asc '' '') (drop 1 lines)))
      in if body = [] then []
         else if length body \<le> 120 then body
         else take 117 body @ asc ''...'')"

section \<open>Eyecatch selection (\<open>selectBestImage\<close>)\<close>

text \<open>
  \<open>statSize p\<close> is \<open>fs.statSync(p).size\<close>, or \<open>None\<close> when \<open>statSync\<close> throws. The
  result \<open>None\<close> of the function is \<open>null\<close>.
\<close>

definition selectBestImage :: "(jsstring \<Rightarrow> nat option) \<Rightarrow> jsstring list \<Rightarrow> jsstring option" where
  "selectBestImage statSize imagePaths =
     (if length imagePaths = 0 then None
      else if length imagePaths = 1 then Some (imagePaths ! 0)
      else Some (fst (foldl (\<lambda>(best, bestSize) p.
                              case statSize p of
                                Some sz \<Rightarrow> if sz > bestSize then (p, sz) else (best, bestSize)
                              | None \<Rightarrow> (best, bestSize))
                        (imagePaths ! 0, 0) imagePaths)))"

section \<open>The publishing script\<close>

text \<open>
  The script with \<open>.docx\<close> support. What lies outside the repository is a parameter:
  the file system, the \<open>mammoth\<close> conversion of a \<open>.docx\<close> file, \<open>path.extname\<close>,
  \<open>path.basename\<close>, \<open>String.prototype.toLowerCase\<close>, and the two remote calls (the media
  upload by \<open>fetch\<close> and \<open>client.create\<close>). Every path that \<open>fs.existsSync\<close> accepts is
  taken to be readable, and \<open>mammoth\<close> to convert every such file. Console output is not
  part of the model; the network calls are recorded, in order, as a list of events.
\<close>

text \<open>\<open>x || d\<close> and the truth value of an optional string (\<open>None\<close> is \<open>undefined\<close>).\<close>

definition truthy :: "jsstring option \<Rightarrow> bool" where
  "truthy x = (case x of None \<Rightarrow> False | Some s \<Rightarrow> s \<noteq> [])"

definition js_or :: "jsstring option \<Rightarrow> jsstring \<Rightarrow> jsstring" where
  "js_or x d = (case x of None \<Rightarrow> d | Some s \<Rightarrow> if s \<noteq> [] then s else d)"

text \<open>The options \<open>parseArgs\<close> returns.\<close>

record opts =
  opt_text :: "jsstring option"
  opt_images :: "jsstring list"
  opt_title :: "jsstring option"
  opt_category :: "jsstring option"
  opt_writer :: "jsstring option"
  opt_featured :: bool
  opt_dryRun :: bool

text \<open>\<open>postData\<close>.\<close>

record post =
  post_title :: jsstring
  post_content :: jsstring
  post_category :: "jsstring list"
  post_description :: jsstring
  post_is_featured :: bool
  post_writer :: "jsstring option"
  post_eyecatch :: "jsstring option"

text \<open>
  An image embedded in a \<open>.docx\<close> file: its content type and whether \<open>image.read()\<close>
  succeeds. A converted document: its images in document order, the HTML as a function
  of the \<open>src\<close> values the image callback returns, and the raw text.
\<close>

record docx_image =
  img_contentType :: jsstring
  img_readable :: bool

record docx =
  docx_images :: "docx_image list"
  docx_html :: "jsstring list \<Rightarrow> jsstring"
  docx_rawText :: jsstring

record world =
  fs_exists :: "jsstring \<Rightarrow> bool"
  fs_readText :: "jsstring \<Rightarrow> jsstring"
  fs_size :: "jsstring \<Rightarrow> nat option"
  mammoth :: "jsstring \<Rightarrow> docx"
  path_extname :: "jsstring \<Rightarrow> jsstring"
  path_basename :: "jsstring \<Rightarrow> jsstring"
  toLowerCase :: "jsstring \<Rightarrow> jsstring"
  net_upload :: "jsstring \<Rightarrow> jsstring \<Rightarrow> jsstring option"
  net_create :: "post \<Rightarrow> jsstring option"

text \<open>
  \<open>Upload fileName contentType\<close> is the request of \<open>uploadImageBuffer\<close>, \<open>Create p\<close> the
  call of \<open>client.create\<close>.
\<close>

datatype event = Upload jsstring jsstring | Create post

text \<open>
  How a run ends: \<open>process.exit(n)\<close>, the return after the dry-run print of the record,
  or the return after a successful registration with the identifier of the entry.
\<close>

datatype outcome = Exit nat | DryRun post | Registered jsstring

text \<open>
  \<open>uploadImageBuffer\<close>: the request is made; the result is the URL of the response, or
  \<open>None\<close> when the function throws (no response, or a response that is not ok).
\<close>

definition uploadImageBuffer :: "world \<Rightarrow> jsstring \<Rightarrow> jsstring \<Rightarrow> jsstring option \<times> event list" where
  "uploadImageBuffer w contentType fileName =
     (net_upload w fileName contentType, [Upload fileName contentType])"

definition mimeMap :: "jsstring \<Rightarrow> jsstring option" where
  "mimeMap ext =
     (if ext = asc ''.jpg'' then Some (asc ''image/jpeg'')
      else if ext = asc ''.jpeg'' then Some (asc ''image/jpeg'')
      else if ext = asc ''.png'' then Some (asc ''image/png'')
      else if ext = asc ''.webp'' then Some (asc ''image/webp'')
      else if ext = asc ''.gif'' then Some (asc ''image/gif'')
      else None)"

text \<open>\<open>uploadImageFile\<close>: \<open>fs.readFileSync\<close> throws for a missing file, before any request.\<close>

definition uploadImageFile :: "world \<Rightarrow> jsstring \<Rightarrow> jsstring option \<times> event list" where
  "uploadImageFile w imagePath =
     (let ext = toLowerCase w (path_extname w imagePath);
          contentType = (case mimeMap ext of Some t \<Rightarrow> t | None \<Rightarrow> asc ''image/jpeg'');
          fileName = path_basename w imagePath
      in if \<not> fs_exists w imagePath then (None, [])
         else uploadImageBuffer w contentType fileName)"

text \<open>The decimal digits of a number, for \<open>${imageIndex}\<close>.\<close>

fun digits :: "nat \<Rightarrow> jsstring" where
  "digits n = (if n < 10 then [0x30 + n] else digits (n div 10) @ [0x30 + n mod 10])"

declare digits.simps [simp del]

text \<open>What \<open>processDocx\<close> and \<open>processText\<close> return.\<close>

record source =
  src_html :: jsstring
  src_rawText :: jsstring
  src_embeddedImages :: "jsstring list"

text \<open>
  The state of \<open>processDocx\<close> while \<open>mammoth\<close> calls the image callback: \<open>imageIndex\<close>,
  the \<open>src\<close> values returned so far, the file names pushed on \<open>embeddedImages\<close>, and the
  requests made.
\<close>

record docx_state =
  ds_imageIndex :: nat
  ds_srcs :: "jsstring list"
  ds_embedded :: "jsstring list"
  ds_events :: "event list"

definition convertImage :: "world \<Rightarrow> bool \<Rightarrow> docx_state \<Rightarrow> docx_image \<Rightarrow> docx_state" where
  "convertImage w dryRun st img =
     (let imageIndex = ds_imageIndex st + 1;
          ext = (if img_contentType img = asc ''image/png'' then asc ''.png'' else asc ''.jpg'');
          fileName = asc ''docx-image-'' @ digits imageIndex @ ext;
          st1 = st\<lparr>ds_imageIndex := imageIndex\<rparr>
      in if dryRun then
           st1\<lparr>ds_srcs := ds_srcs st @ [[0x5B, 0x753B, 0x50CF, 0x3A, 0x20] @ fileName @ asc '']''],
               ds_embedded := ds_embedded st @ [fileName]\<rparr>
         else if \<not> img_readable img then
           st1\<lparr>ds_srcs := ds_srcs st @ [[]]\<rparr>
         else
           (case uploadImageBuffer w (img_contentType img) fileName of
              (Some url, evs) \<Rightarrow>
                st1\<lparr>ds_srcs := ds_srcs st @ [url],
                    ds_embedded := ds_embedded st @ [fileName],
                    ds_events := ds_events st @ evs\<rparr>
            | (None, evs) \<Rightarrow>
                st1\<lparr>ds_srcs := ds_srcs st @ [[]],
                    ds_events := ds_events st @ evs\<rparr>))"

definition processDocx :: "world \<Rightarrow> jsstring \<Rightarrow> bool \<Rightarrow> source \<times> event list" where
  "processDocx w filePath dryRun =
     (let doc = mammoth w filePath;
          st = foldl (convertImage w dryRun)
                 \<lparr>ds_imageIndex = 0, ds_srcs = [], ds_embedded = [], ds_events = []\<rparr>
                 (docx_images doc)
      in (\<lparr>src_html = docx_html doc (ds_srcs st),
           src_rawText = docx_rawText doc,
           src_embeddedImages = ds_embedded st\<rparr>,
          ds_events st))"

definition processText :: "world \<Rightarrow> jsstring \<Rightarrow> source" where
  "processText w filePath =
     (let rawText = fs_readText w filePath
      in \<lparr>src_html = textToHtml rawText, src_rawText = rawText, src_embeddedImages = []\<rparr>)"

text \<open>The eyecatch step of \<open>main\<close>: the URL, if any, and the requests made.\<close>

definition eyecatch_step :: "world \<Rightarrow> opts \<Rightarrow> jsstring option \<times> event list" where
  "eyecatch_step w opts =
     (if length (opt_images opts) > 0 then
        (case selectBestImage (fs_size w) (opt_images opts) of
           None \<Rightarrow> (None, [])
         | Some bestImage \<Rightarrow>
             if \<not> opt_dryRun opts then uploadImageFile w bestImage else (None, []))
      else (None, []))"

definition main :: "world \<Rightarrow> opts \<Rightarrow> outcome \<times> event list" where
  "main w opts =
     (case opt_text opts of
        None \<Rightarrow> (Exit 1, [])
      | Some textPath \<Rightarrow>
          if textPath = [] then (Exit 1, [])
          else if \<not> fs_exists w textPath then (Exit 1, [])
          else
            (let ext = toLowerCase w (path_extname w textPath);
                 (src, evs1) =
                    (if ext = asc ''.docx'' then processDocx w textPath (opt_dryRun opts)
                     else (processText w textPath, []));
                 title = js_or (opt_title opts) (generateTitle (src_rawText src));
                 category = js_or (opt_category opts) (detectCategory (src_rawText src));
                 description = generateDescription (src_rawText src)
             in if category \<notin> set CATEGORIES then (Exit 1, evs1)
                else
                  (let (eyecatch, evs2) = eyecatch_step w opts;
                       postData =
                         \<lparr>post_title = title,
                          post_content = src_html src,
                          post_category = [category],
                          post_description = description,
                          post_is_featured = opt_featured opts,
                          post_writer = (if truthy (opt_writer opts) then opt_writer opts else None),
                          post_eyecatch = (if truthy eyecatch then eyecatch else None)\<rparr>
                   in if opt_dryRun opts then (DryRun postData, evs1 @ evs2)
                      else
                        (case net_create w postData of
                           Some entry \<Rightarrow> (Registered entry, evs1 @ evs2 @ [Create postData])
                         | None \<Rightarrow> (Exit 1, evs1 @ evs2 @ [Create postData])))))"

text \<open>
  The top level of the script: \<open>env\<close> is \<open>process.env\<close> once \<open>loadEnv\<close> has added the
  entries of \<open>.env\<close>; the check of the two variables comes before \<open>main\<close>.
\<close>

definition MICROCMS_SERVICE_DOMAIN :: jsstring where
  "MICROCMS_SERVICE_DOMAIN = asc ''MICROCMS_SERVICE_DOMAIN''"

definition MICROCMS_API_KEY :: jsstring where
  "MICROCMS_API_KEY = asc ''MICROCMS_API_KEY''"

definition script :: "(jsstring \<rightharpoonup> jsstring) \<Rightarrow> world \<Rightarrow> opts \<Rightarrow> outcome \<times> event list" where
  "script env w opts =
     (if \<not> truthy (env MICROCMS_SERVICE_DOMAIN) \<or> \<not> truthy (env MICROCMS_API_KEY)
      then (Exit 1, [])
      else main w opts)"

section \<open>The read client (\<open>src/lib/microcms.ts\<close>)\<close>

text \<open>
  The module as it stands last in the file. \<open>env\<close> is \<open>import.meta.env\<close>. The two
  \<open>client.get\<close> calls of the SDK are parameters; each returns a value or throws.
\<close>

record client_cfg =
  serviceDomain :: jsstring
  apiKey :: jsstring

datatype js_error = Error jsstring

record 'b blog_response =
  totalCount :: nat
  offset :: nat
  limit :: nat
  contents :: "'b list"

datatype 'q cms_call = GetList "'q option" | GetDetail jsstring

definition client :: "(jsstring \<rightharpoonup> jsstring) \<Rightarrow> client_cfg option" where
  "client env =
     (let sd = js_or (env MICROCMS_SERVICE_DOMAIN) [];
          ak = js_or (env MICROCMS_API_KEY) []
      in if sd \<noteq> [] \<and> ak \<noteq> [] then Some \<lparr>serviceDomain = sd, apiKey = ak\<rparr> else None)"

definition getBlogs ::
  "(jsstring \<rightharpoonup> jsstring) \<Rightarrow> (client_cfg \<Rightarrow> 'q option \<Rightarrow> js_error + 'b blog_response)
     \<Rightarrow> 'q option \<Rightarrow> (js_error + 'b blog_response) \<times> 'q cms_call list" where
  "getBlogs env sdk_get queries =
     (case client env of
        None \<Rightarrow> (Inr \<lparr>totalCount = 0, offset = 0, limit = 0, contents = []\<rparr>, [])
      | Some c \<Rightarrow> (sdk_get c queries, [GetList queries]))"

definition getBlogDetail ::
  "(jsstring \<rightharpoonup> jsstring) \<Rightarrow> (client_cfg \<Rightarrow> jsstring \<Rightarrow> js_error + 'b)
     \<Rightarrow> jsstring \<Rightarrow> (js_error + 'b) \<times> 'q cms_call list" where
  "getBlogDetail env sdk_get contentId =
     (case client env of
        None \<Rightarrow> (Inl (Error (asc ''microCMS client is not configured'')), [])
      | Some c \<Rightarrow> (sdk_get c contentId, [GetDetail contentId]))"

section \<open>The notification handler\<close>

text \<open>
  A request carries its method and, when the body was parsed, the \<open>type\<close> and the
  \<open>fields\<close> of the form (\<open>None\<close> is \<open>undefined\<close>). The response is the status and the
  JSON body. The effects are the lines written to the error console and the request to
  the webhook. The current time as \<open>toLocaleString\<close> prints it is a parameter.
\<close>

record form_field =
  f_label :: jsstring
  f_value :: "jsstring option"

record form_body =
  b_type :: "jsstring option"
  b_fields :: "form_field list option"

record http_request =
  req_method :: jsstring
  req_body :: "form_body option"

datatype json_body = ErrorJson jsstring | OkJson

record http_response =
  res_status :: nat
  res_json :: json_body

record slack_blocks =
  header_text :: jsstring
  section_fields :: "jsstring list"
  context_text :: jsstring

text \<open>
  \<open>fetch\<close>: it throws, or there is a response with its \<open>ok\<close> flag and its text (\<open>None\<close>
  when reading the text throws).
\<close>

datatype fetch_result = FetchThrows | FetchResponse bool "jsstring option"

datatype effect = ConsoleError | WebhookPost jsstring slack_blocks

definition SLACK_WEBHOOK_URL :: jsstring where
  "SLACK_WEBHOOK_URL = asc ''SLACK_WEBHOOK_URL''"

definition respond :: "nat \<Rightarrow> json_body \<Rightarrow> http_response" where
  "respond st b = \<lparr>res_status = st, res_json = b\<rparr>"

definition field_text :: "form_field \<Rightarrow> jsstring" where
  "field_text f =
     asc ''*'' @ f_label f @ asc ''*'' @ [0x0A]
       @ js_or (f_value f) [0x28, 0x672A, 0x5165, 0x529B, 0x29]"

definition blocks :: "jsstring \<Rightarrow> jsstring option \<Rightarrow> form_field list \<Rightarrow> slack_blocks" where
  "blocks now ty flds =
     \<lparr>header_text =
        (if ty = Some (asc ''career'')
         then asc '':briefcase: '' @ [0x4E2D, 0x9014, 0x63A1, 0x7528, 0x30A8, 0x30F3, 0x30C8, 0x30EA, 0x30FC]
         else asc '':mortar_board: '' @ [0x30A4, 0x30F3, 0x30BF, 0x30FC, 0x30F3, 0x30A8, 0x30F3, 0x30C8, 0x30EA, 0x30FC]),
      section_fields = map field_text flds,
      context_text =
        [0x9001, 0x4FE1, 0x5143, 0x3A, 0x20] @ asc ''<https://int-incubation.com|ARCHECO''
          @ [0x63A1, 0x7528, 0x30B5, 0x30A4, 0x30C8] @ asc ''> | '' @ now\<rparr>"

definition handler ::
  "(jsstring \<rightharpoonup> jsstring) \<Rightarrow> jsstring \<Rightarrow> (jsstring \<Rightarrow> slack_blocks \<Rightarrow> fetch_result)
     \<Rightarrow> http_request \<Rightarrow> http_response \<times> effect list" where
  "handler env now fetch req =
     (if req_method req \<noteq> asc ''POST'' then
        (respond 405 (ErrorJson (asc ''Method not allowed'')), [])
      else
        (case env SLACK_WEBHOOK_URL of
           None \<Rightarrow> (respond 500 (ErrorJson (asc ''Slack webhook not configured'')), [ConsoleError])
         | Some webhookUrl \<Rightarrow>
             if webhookUrl = [] then
               (respond 500 (ErrorJson (asc ''Slack webhook not configured'')), [ConsoleError])
             else
               (case req_body req of
                  None \<Rightarrow> (respond 500 (ErrorJson (asc ''Internal server error'')), [ConsoleError])
                | Some body \<Rightarrow>
                    (case b_fields body of
                       None \<Rightarrow>
                         (respond 500 (ErrorJson (asc ''Internal server error'')), [ConsoleError])
                     | Some flds \<Rightarrow>
                         (let bl = blocks now (b_type body) flds in
                          case fetch webhookUrl bl of
                            FetchThrows \<Rightarrow>
                              (respond 500 (ErrorJson (asc ''Internal server error'')),
                               [WebhookPost webhookUrl bl, ConsoleError])
                          | FetchResponse ok txt \<Rightarrow>
                              if \<not> ok then
                                (case txt of
                                   None \<Rightarrow>
                                     (respond 500 (ErrorJson (asc ''Internal server error'')),
                                      [WebhookPost webhookUrl bl, ConsoleError])
                                 | Some t \<Rightarrow>
                                     (respond 502 (ErrorJson (asc ''Slack notification failed'')),
                                      [WebhookPost webhookUrl bl, ConsoleError]))
                              else (respond 200 OkJson, [WebhookPost webhookUrl bl]))))))"

section \<open>Notions used to state the properties\<close>

text \<open>The number of positions of \<open>s\<close> at which \<open>pat\<close> occurs.\<close>

fun occurrences :: "jsstring \<Rightarrow> jsstring \<Rightarrow> nat" where
  "occurrences pat [] = 0"
| "occurrences pat (c # cs) = (if prefix pat (c # cs) then 1 else 0) + occurrences pat cs"

definition ul_open :: jsstring where
  "ul_open = asc ''<ul>''"

definition ul_close :: jsstring where
  "ul_close = asc ''</ul>''"

text \<open>
  An entry of the \<open>html\<close> array is transparent when it is neither marker and adds no
  occurrence of a marker to whatever follows it.
\<close>

definition transparent :: "jsstring \<Rightarrow> bool" where
  "transparent e \<longleftrightarrow> e \<noteq> ul_open \<and> e \<noteq> ul_close \<and>
     (\<forall>r. occurrences ul_open (e @ r) = occurrences ul_open r
        \<and> occurrences ul_close (e @ r) = occurrences ul_close r)"

definition marker_ok :: "jsstring \<Rightarrow> bool" where
  "marker_ok e \<longleftrightarrow> e = ul_open \<or> e = ul_close \<or> transparent e"

text \<open>The invariant of the loop of \<open>textToHtml\<close>.\<close>

definition balanced :: "html_state \<Rightarrow> bool" where
  "balanced st \<longleftrightarrow> list_all marker_ok (html st) \<and>
     count_list (html st) ul_open = count_list (html st) ul_close + (if inList st then 1 else 0)"

text \<open>The escape of one character.\<close>

definition esc_char :: "nat \<Rightarrow> jsstring" where
  "esc_char c =
     (if c = 0x26 then asc ''&amp;''
      else if c = 0x3C then asc ''&lt;''
      else if c = 0x3E then asc ''&gt;''
      else [c])"

text \<open>
  The conversion as the specification words it, line by line: a line is a heading of depth
  1 to 3, a list item, blank, or a paragraph; the content of a heading, a list item or a
  paragraph is escaped character by character and wrapped in its tags; a list item opens
  a list block unless one is open, every other line closes an open block, and so does
  the end of the input.
\<close>

definition escape :: "jsstring \<Rightarrow> jsstring" where
  "escape s = concat (map esc_char s)"

definition wrap :: "string \<Rightarrow> jsstring \<Rightarrow> jsstring" where
  "wrap tag s = asc ''<'' @ asc tag @ asc ''>'' @ s @ asc ''</'' @ asc tag @ asc ''>''"

datatype line_kind = Heading nat jsstring | Item jsstring | Blank | Para jsstring

definition classify :: "jsstring \<Rightarrow> line_kind" where
  "classify line =
     (case match_heading (asc ''###'') line of
        Some g \<Rightarrow> Heading 3 g
      | None \<Rightarrow>
      (case match_heading (asc ''##'') line of
        Some g \<Rightarrow> Heading 2 g
      | None \<Rightarrow>
      (case match_heading (asc ''#'') line of
        Some g \<Rightarrow> Heading 1 g
      | None \<Rightarrow>
      (case match_li line of
        Some g \<Rightarrow> Item g
      | None \<Rightarrow> if trim line = [] then Blank else Para line))))"

definition heading_tag :: "nat \<Rightarrow> string" where
  "heading_tag n = (if n = 1 then ''h1'' else if n = 2 then ''h2'' else ''h3'')"

definition close_if :: "bool \<Rightarrow> jsstring list" where
  "close_if opened = (if opened then [asc ''</ul>''] else [])"

fun render :: "bool \<Rightarrow> line_kind list \<Rightarrow> jsstring list" where
  "render opened [] = close_if opened"
| "render opened (Heading n g # ks) =
     close_if opened @ wrap (heading_tag n) (escape g) # render False ks"
| "render opened (Item g # ks) =
     (if opened then [] else [asc ''<ul>'']) @ wrap ''li'' (escape g) # render True ks"
| "render opened (Blank # ks) = close_if opened @ render False ks"
| "render opened (Para g # ks) = close_if opened @ wrap ''p'' (escape g) # render False ks"

definition normalize_html :: "jsstring \<Rightarrow> jsstring" where
  "normalize_html text =
     join (asc [CHR 0x0A])
       (render False (map (\<lambda>raw. classify (trimEnd raw)) (split_on 0x0A text)))"

text \<open>Truncation to \<open>n\<close> characters, the last three being the ellipsis marker \<open>...\<close>.\<close>

definition ellipsize :: "nat \<Rightarrow> jsstring \<Rightarrow> jsstring" where
  "ellipsize n s = (if length s > n then take (n - 3) s @ asc ''...'' else s)"

definition blank :: "jsstring \<Rightarrow> bool" where
  "blank l = (trim l = [])"

text \<open>
  The title as the specification words it: the first line that is not blank, without
  the heading markers \<open>#\<close> at its start, trimmed, and truncated to 60 characters; the
  placeholder when every line is blank.
\<close>

definition deriveTitle :: "jsstring \<Rightarrow> jsstring" where
  "deriveTitle text =
     (case List.find (\<lambda>l. \<not> blank l) (split_on 0x0A text) of
        None \<Rightarrow> untitled
      | Some l \<Rightarrow> ellipsize 60 (trim (dropWhile (\<lambda>c. c = 0x23) l)))"

text \<open>
  The earliest element of a list whose value under \<open>f\<close> is at least that of every
  element: the result of a first-max scan.
\<close>

definition first_largest :: "('a \<Rightarrow> nat) \<Rightarrow> 'a list \<Rightarrow> 'a" where
  "first_largest f xs = hd (filter (\<lambda>x. list_all (\<lambda>y. f y \<le> f x) xs) xs)"

text \<open>The size of a path, with zero for a path whose size cannot be determined.\<close>

definition size0 :: "(jsstring \<Rightarrow> nat option) \<Rightarrow> jsstring \<Rightarrow> nat" where
  "size0 statSize p = (case statSize p of None \<Rightarrow> 0 | Some n \<Rightarrow> n)"

text \<open>
  The selection as the specification words it: the paths whose size cannot be
  determined are left out, and the earliest path of largest size among the others is
  returned. When no size can be determined the specification names no path, and the
  definition gives \<open>None\<close>.
\<close>

definition selectBest :: "(jsstring \<Rightarrow> nat option) \<Rightarrow> jsstring list \<Rightarrow> jsstring option" where
  "selectBest statSize paths =
     (if paths = [] then None
      else if length paths = 1 then Some (hd paths)
      else (case filter (\<lambda>p. statSize p \<noteq> None) paths of
              [] \<Rightarrow> None
            | known \<Rightarrow> Some (first_largest (size0 statSize) known)))"

text \<open>A file system with one empty file and nothing else.\<close>

definition example_stat :: "jsstring \<Rightarrow> nat option" where
  "example_stat p = (if p = asc ''empty.png'' then Some 0 else None)"

text \<open>
  The number of positions of \<open>s\<close> at which the keyword occurs, letter case ignored
  (occurrences may overlap).
\<close>

fun ci_occurrences :: "jsstring \<Rightarrow> jsstring \<Rightarrow> nat" where
  "ci_occurrences kw [] = 0"
| "ci_occurrences kw (c # cs) = (if matchAt kw (c # cs) then 1 else 0) + ci_occurrences kw cs"

text \<open>
  A keyword whose first character matches none of its later characters: two of its
  occurrences never overlap.
\<close>

definition first_unique :: "jsstring \<Rightarrow> bool" where
  "first_unique kw =
     (case kw of [] \<Rightarrow> False | k # ks \<Rightarrow> list_all (\<lambda>c. canon c \<noteq> canon k) ks)"

definition keywords_of :: "jsstring \<Rightarrow> jsstring list" where
  "keywords_of cat = (case map_of CATEGORY_KEYWORDS cat of None \<Rightarrow> [] | Some kws \<Rightarrow> kws)"

definition score :: "jsstring \<Rightarrow> jsstring \<Rightarrow> nat" where
  "score text cat = sum_list (map (\<lambda>kw. ci_occurrences kw text) (keywords_of cat))"

text \<open>
  The category as the specification words it: the first label, in the order of
  \<open>CATEGORIES\<close>, whose score no other label exceeds.
\<close>

definition deriveCategory :: "jsstring \<Rightarrow> jsstring" where
  "deriveCategory text = first_largest (score text) CATEGORIES"

text \<open>The words of a string: its maximal runs of characters that are not white space.\<close>

function tokens :: "jsstring \<Rightarrow> jsstring list" where
  "tokens s =
     (case dropWhile isWS s of
        [] \<Rightarrow> []
      | c # cs \<Rightarrow> (c # takeWhile (\<lambda>x. \<not> isWS x) cs) # tokens (dropWhile (\<lambda>x. \<not> isWS x) cs))"
  by pat_completeness auto
termination
proof (relation "measure length")
  show "wf (measure length)" by simp
next
  fix s :: jsstring and c cs
  assume "dropWhile isWS s = c # cs"
  then have "length (c # cs) \<le> length s"
    by (metis length_dropWhile_le)
  moreover have "length (dropWhile (\<lambda>x. \<not> isWS x) cs) \<le> length cs"
    by (rule length_dropWhile_le)
  ultimately show "(dropWhile (\<lambda>x. \<not> isWS x) cs, s) \<in> measure length"
    by simp
qed

declare tokens.simps [simp del]

text \<open>
  The description as the specification words it: the lines that are not blank, the
  first left out, joined by single spaces; white space collapsed and trimmed, which
  leaves the words separated by single spaces; truncated to 120 characters.
\<close>

definition deriveDescription :: "jsstring \<Rightarrow> jsstring" where
  "deriveDescription text =
     ellipsize 120
       (join (asc '' '')
          (tokens (join (asc '' '') (tl (filter (\<lambda>l. \<not> blank l) (split_on 0x0A text))))))"

text \<open>
  A world for the examples: the text file \<open>blog.txt\<close> and the Word file \<open>blog.docx\<close>
  with one embedded PNG image; every upload and the registration succeed. The file
  names of the examples are in lower case and have no directory part.
\<close>

definition hello_text :: jsstring where
  "hello_text = asc ''# Hello'' @ [0x0A, 0x0A] @ asc ''This is a test about ''
     @ [0x7814, 0x4FEE] @ asc ''.'' @ [0x0A]"

definition hello_html :: jsstring where
  "hello_html = asc ''<h1>Hello</h1>'' @ [0x0A] @ asc ''<p>This is a test about ''
     @ [0x7814, 0x4FEE] @ asc ''.</p>''"

definition hello_description :: jsstring where
  "hello_description = asc ''This is a test about '' @ [0x7814, 0x4FEE] @ asc ''.''"

definition example_docx :: docx where
  "example_docx =
     \<lparr>docx_images = [\<lparr>img_contentType = asc ''image/png'', img_readable = True\<rparr>],
      docx_html = concat,
      docx_rawText = asc ''Hello''\<rparr>"

definition example_extname :: "jsstring \<Rightarrow> jsstring" where
  "example_extname p =
     (if p = asc ''blog.docx'' then asc ''.docx''
      else if p = asc ''blog.txt'' then asc ''.txt'' else [])"

definition example_exists :: "jsstring \<Rightarrow> bool" where
  "example_exists p = (p = asc ''blog.docx'' \<or> p = asc ''blog.txt'')"

definition example_upload :: "jsstring \<Rightarrow> jsstring \<Rightarrow> jsstring option" where
  "example_upload fileName contentType = Some (asc ''https://images.example/'' @ fileName)"

definition example_create :: "post \<Rightarrow> jsstring option" where
  "example_create p = Some (asc ''entry1'')"

definition example_world :: world where
  "example_world =
     \<lparr>fs_exists = example_exists,
      fs_readText = (\<lambda>p. hello_text),
      fs_size = (\<lambda>p. None),
      mammoth = (\<lambda>p. example_docx),
      path_extname = example_extname,
      path_basename = id,
      toLowerCase = id,
      net_upload = example_upload,
      net_create = example_create\<rparr>"

text \<open>\<open>--text blog.docx --category news\<close>.\<close>

definition docx_opts :: opts where
  "docx_opts =
     \<lparr>opt_text = Some (asc ''blog.docx''), opt_images = [], opt_title = None,
      opt_category = Some (asc ''news''), opt_writer = None, opt_featured = False,
      opt_dryRun = False\<rparr>"

text \<open>\<open>--text blog.txt --dry-run\<close>.\<close>

definition hello_opts :: opts where
  "hello_opts =
     \<lparr>opt_text = Some (asc ''blog.txt''), opt_images = [], opt_title = None,
      opt_category = None, opt_writer = None, opt_featured = False,
      opt_dryRun = True\<rparr>"

text \<open>An environment without any variable, and remote services that cannot be reached.\<close>

definition no_env :: "jsstring \<rightharpoonup> jsstring" where
  "no_env = Map.empty"

definition sdk_down :: "client_cfg \<Rightarrow> unit option \<Rightarrow> js_error + unit blog_response" where
  "sdk_down c q = Inl (Error (asc ''network''))"

definition sdk_detail_down :: "client_cfg \<Rightarrow> jsstring \<Rightarrow> js_error + unit" where
  "sdk_detail_down c i = Inl (Error (asc ''network''))"

definition fetch_down :: "jsstring \<Rightarrow> slack_blocks \<Rightarrow> fetch_result" where
  "fetch_down url b = FetchThrows"

definition get_request :: http_request where
  "get_request = \<lparr>req_method = asc ''GET'', req_body = None\<rparr>"

section \<open>List blocks are balanced\<close>

lemma occurrences_no_lt:
  "0x3C \<notin> set s \<Longrightarrow> occurrences (0x3C # p) (s @ r) = occurrences (0x3C # p) r"
  by (induction s) auto

lemma esc_no_lt: "0x3C \<notin> set (esc s)"
  by (induction s) (simp_all add: esc_def replaceAll_def asc_def)

lemma occurrences_esc [simp]:
  "occurrences (0x3C # p) (esc g @ r) = occurrences (0x3C # p) r"
  by (rule occurrences_no_lt) (rule esc_no_lt)

lemma transparent_element:
  "tag \<in> {''h1'', ''h2'', ''h3'', ''li'', ''p''} \<Longrightarrow> transparent (element tag g)"
  by (auto simp: transparent_def element_def ul_open_def ul_close_def asc_def)

lemma occ_open_open: "occurrences ul_open (ul_open @ r) = Suc (occurrences ul_open r)"
  by (simp add: ul_open_def asc_def)

lemma occ_close_open: "occurrences ul_close (ul_open @ r) = occurrences ul_close r"
  by (simp add: ul_open_def ul_close_def asc_def)

lemma occ_open_close: "occurrences ul_open (ul_close @ r) = occurrences ul_open r"
  by (simp add: ul_open_def ul_close_def asc_def)

lemma occ_close_close: "occurrences ul_close (ul_close @ r) = Suc (occurrences ul_close r)"
  by (simp add: ul_close_def asc_def)

lemma open_neq_close: "ul_open \<noteq> ul_close"
  by (simp add: ul_open_def ul_close_def asc_def)

lemma occ_marker:
  assumes "marker_ok e"
  shows "occurrences ul_open (e @ r) = (if e = ul_open then 1 else 0) + occurrences ul_open r"
    and "occurrences ul_close (e @ r) = (if e = ul_close then 1 else 0) + occurrences ul_close r"
  using assms open_neq_close
  by (auto simp: marker_ok_def transparent_def
        occ_open_open occ_close_open occ_open_close occ_close_close)

lemma occ_newline:
  "occurrences ul_open (asc [CHR 0x0A] @ r) = occurrences ul_open r"
  "occurrences ul_close (asc [CHR 0x0A] @ r) = occurrences ul_close r"
  by (simp_all add: ul_open_def ul_close_def asc_def)

text \<open>In the joined output the markers are exactly the marker entries of the array.\<close>

lemma occ_join:
  "list_all marker_ok es \<Longrightarrow>
     occurrences ul_open (join (asc [CHR 0x0A]) es) = count_list es ul_open
   \<and> occurrences ul_close (join (asc [CHR 0x0A]) es) = count_list es ul_close"
proof (induction "asc [CHR 0x0A]" es rule: join.induct)
  case 1
  then show ?case by simp
next
  case (2 x)
  then show ?case using occ_marker [of x "[]"] by simp
next
  case (3 x y ys)
  then show ?case
    using occ_marker [of x "asc [CHR 0x0A] @ join (asc [CHR 0x0A]) (y # ys)"]
    by (simp add: occ_newline)
qed

lemma balanced_closeList:
  "balanced st \<Longrightarrow> balanced (closeList st) \<and> \<not> inList (closeList st)"
  using open_neq_close
  by (auto simp: balanced_def closeList_def push_def marker_ok_def ul_close_def)

lemma balanced_push:
  "balanced st \<Longrightarrow> tag \<in> {''h1'', ''h2'', ''h3'', ''li'', ''p''}
     \<Longrightarrow> balanced (push (element tag g) st)"
  using transparent_element [of tag g]
  by (auto simp: balanced_def push_def marker_ok_def transparent_def)

lemma balanced_open:
  "balanced st \<Longrightarrow> \<not> inList st
     \<Longrightarrow> balanced ((push (asc ''<ul>'') st)\<lparr>inList := True\<rparr>)"
  using open_neq_close
  by (auto simp: balanced_def push_def marker_ok_def ul_open_def)

lemma balanced_html_line: "balanced st \<Longrightarrow> balanced (html_line st raw)"
  unfolding html_line_def Let_def
  by (auto split: option.splits simp: balanced_closeList balanced_push balanced_open)

lemma balanced_foldl: "balanced st \<Longrightarrow> balanced (foldl html_line st ls)"
  by (induction ls arbitrary: st) (simp_all add: balanced_html_line)

lemma balanced_init: "balanced \<lparr>html = [], inList = False\<rparr>"
  by (simp add: balanced_def)

text \<open>
  Claim C4. For every input text, the string \<open>textToHtml\<close> returns contains as many
  list-open markers \<open><ul>\<close> as list-close markers \<open></ul>\<close>, counted as substrings of the
  output.
\<close>

theorem textToHtml_list_balance:
  "occurrences (asc ''<ul>'') (textToHtml text) = occurrences (asc ''</ul>'') (textToHtml text)"
proof -
  let ?st = "closeList (foldl html_line \<lparr>html = [], inList = False\<rparr> (split_on 0x0A text))"
  have b: "balanced ?st" and n: "\<not> inList ?st"
    using balanced_closeList [OF balanced_foldl [OF balanced_init]] by blast+
  from b n have "count_list (html ?st) ul_open = count_list (html ?st) ul_close"
    and "list_all marker_ok (html ?st)"
    by (simp_all add: balanced_def)
  then show ?thesis
    using occ_join [of "html ?st"] by (simp add: textToHtml_def ul_open_def ul_close_def)
qed

section \<open>Escaping\<close>

lemmas textToHtml_eval =
  textToHtml_def html_line_def Let_def match_heading_def match_li_def rx_ws_group_def
  trimEnd_def trimStart_def trim_def isWS_def isDot_def isLineTerminator_def asc_def
  element_def esc_def replaceAll_def push_def closeList_def

lemma esc_escape: "esc s = escape s"
  by (induction s) (simp_all add: esc_def escape_def replaceAll_def esc_char_def asc_def)

lemma element_wrap: "element tag g = wrap tag (escape g)"
  by (simp add: element_def wrap_def esc_escape)

text \<open>One iteration of the loop adds to the output what the line-by-line rendering adds.\<close>

lemma html_line_render:
  "html (html_line st raw) @ render (inList (html_line st raw)) ks
     = html st @ render (inList st) (classify (trimEnd raw) # ks)"
  by (simp add: html_line_def classify_def Let_def element_wrap push_def closeList_def
        close_if_def heading_tag_def split: option.splits)

lemma foldl_html_line_render:
  "html (closeList (foldl html_line st ls))
     = html st @ render (inList st) (map (\<lambda>raw. classify (trimEnd raw)) ls)"
proof (induction ls arbitrary: st)
  case Nil
  show ?case by (simp add: closeList_def push_def close_if_def)
next
  case (Cons raw ls)
  show ?case
    using Cons [of "html_line st raw"] html_line_render [of st raw] by simp
qed

lemma textToHtml_normalize_html: "textToHtml text = normalize_html text"
  by (simp add: textToHtml_def normalize_html_def foldl_html_line_render)

text \<open>
  Claim C5. \<open>esc\<close> replaces each \<open>&\<close>, \<open><\<close> and \<open>>\<close> by its entity once and leaves
  every other character as it is: the three replacements in sequence, \<open>&\<close> first, amount
  to one pass that escapes each character separately, so the \<open>&\<close> of an entity is never
  escaped again. For every input text, \<open>textToHtml\<close> inserts the content of every
  heading, every list item and every paragraph escaped in this way, and nothing else
  between the tags: its output is that of the line-by-line rendering \<open>normalize_html\<close>.
  The line \<open><script>&</script>\<close> becomes the paragraph
  \<open><p>&lt;script&gt;&amp;&lt;/script&gt;</p>\<close>; a heading and a list item with the
  three characters are escaped in the same way.
\<close>

theorem esc_once:
  "esc s = concat (map esc_char s)
   \<and> textToHtml text = normalize_html text
   \<and> textToHtml (asc ''<script>&</script>'') = asc ''<p>&lt;script&gt;&amp;&lt;/script&gt;</p>''
   \<and> textToHtml (asc ''## a<b>&c'') = asc ''<h2>a&lt;b&gt;&amp;c</h2>''
   \<and> textToHtml (asc ''- a<b>&c'')
       = asc ''<ul>'' @ [0x0A] @ asc ''<li>a&lt;b&gt;&amp;c</li>'' @ [0x0A] @ asc ''</ul>''"
proof (intro conjI)
  show "esc s = concat (map esc_char s)"
    by (induction s) (simp_all add: esc_def replaceAll_def esc_char_def asc_def)
  show "textToHtml text = normalize_html text"
    by (rule textToHtml_normalize_html)
  show "textToHtml (asc ''<script>&</script>'') = asc ''<p>&lt;script&gt;&amp;&lt;/script&gt;</p>''"
    by (simp add: textToHtml_eval)
  show "textToHtml (asc ''## a<b>&c'') = asc ''<h2>a&lt;b&gt;&amp;c</h2>''"
    by (simp add: textToHtml_eval)
  show "textToHtml (asc ''- a<b>&c'')
       = asc ''<ul>'' @ [0x0A] @ asc ''<li>a&lt;b&gt;&amp;c</li>'' @ [0x0A] @ asc ''</ul>''"
    by (simp add: textToHtml_eval)
qed

section \<open>Title\<close>

lemma find_as_filter:
  "List.find P xs = (case filter P xs of [] \<Rightarrow> None | x # _ \<Rightarrow> Some x)"
  by (induction xs) auto

lemma trim_strip_heading: "trim (strip_heading l) = trim (dropWhile (\<lambda>c. c = 0x23) l)"
proof (cases "takeWhile (\<lambda>c. c = 0x23) l = []")
  case True
  then have "dropWhile (\<lambda>c. c = 0x23) l = l"
    by (cases l) (auto split: if_splits)
  with True show ?thesis by (simp add: strip_heading_def)
next
  case False
  then show ?thesis by (simp add: strip_heading_def trim_def trimStart_def)
qed

lemma generateTitle_deriveTitle: "generateTitle text = deriveTitle text"
proof (cases "filter (\<lambda>l. length (trim l) > 0) (split_on 0x0A text)")
  case Nil
  then show ?thesis
    by (simp add: generateTitle_def deriveTitle_def blank_def find_as_filter)
next
  case (Cons l ls)
  then show ?thesis
    by (simp add: generateTitle_def deriveTitle_def blank_def find_as_filter
          trim_strip_heading ellipsize_def Let_def)
qed

lemma length_ellipsize: "3 \<le> n \<Longrightarrow> length (ellipsize n s) \<le> n"
  by (auto simp: ellipsize_def asc_def)

lemma length_deriveTitle: "length (deriveTitle text) \<le> 60"
  by (simp add: deriveTitle_def untitled_def length_ellipsize split: option.split)

lemma split_on_none: "sep \<notin> set s \<Longrightarrow> split_on sep s = [s]"
  by (induction s) auto

lemma trim_id: "s \<noteq> [] \<Longrightarrow> \<not> isWS (hd s) \<Longrightarrow> \<not> isWS (last s) \<Longrightarrow> trim s = s"
proof -
  assume ne: "s \<noteq> []" and h: "\<not> isWS (hd s)" and l: "\<not> isWS (last s)"
  from ne h have a: "dropWhile isWS s = s"
    by (cases s) auto
  from ne l have "\<not> isWS (hd (rev s))"
    by (simp add: hd_rev)
  with ne have b: "dropWhile isWS (rev s) = rev s"
    by (cases "rev s") auto
  show ?thesis
    by (simp add: trim_def trimStart_def trimEnd_def a b)
qed

lemma deriveTitle_As: "deriveTitle (replicate 100 0x41) = replicate 57 0x41 @ asc ''...''"
proof -
  have t: "trim (replicate 100 0x41) = replicate 100 0x41"
    by (rule trim_id) (simp_all add: isWS_def)
  have d: "dropWhile (\<lambda>c. c = 0x23) (replicate 100 (0x41::nat)) = replicate 100 0x41"
    by simp
  show ?thesis
    by (simp add: deriveTitle_def split_on_none blank_def t d ellipsize_def)
qed

text \<open>
  Claim C6. For every input text, \<open>generateTitle\<close> returns the first line that is not
  blank, with the heading markers \<open>#\<close> at its start stripped and the white space around
  it trimmed, or the fixed placeholder when no line is not blank; a result longer than 60
  characters is cut to its first 57 characters followed by the ellipsis marker. The title
  never has more than 60 characters, the empty text gives the placeholder, and a text of
  100 letters \<open>A\<close> gives 57 letters \<open>A\<close> followed by \<open>...\<close>, 60 characters in all.
  (Characters are UTF-16 code units, as for \<open>length\<close> and \<open>slice\<close> in the source.)
\<close>

theorem generateTitle_spec:
  "generateTitle text = deriveTitle text
   \<and> length (generateTitle text) \<le> 60
   \<and> generateTitle [] = untitled
   \<and> generateTitle (replicate 100 0x41) = replicate 57 0x41 @ asc ''...''
   \<and> length (generateTitle (replicate 100 0x41)) = 60"
  by (simp add: generateTitle_deriveTitle length_deriveTitle deriveTitle_As)
    (simp add: deriveTitle_def blank_def trim_def trimStart_def trimEnd_def asc_def)

section \<open>First-max scans\<close>

lemma largest_exists:
  "xs \<noteq> [] \<Longrightarrow> \<exists>x \<in> set xs. \<forall>y \<in> set xs. (f::'a \<Rightarrow> nat) y \<le> f x"
proof -
  assume "xs \<noteq> []"
  then have "Max (f ` set xs) \<in> f ` set xs"
    by (intro Max_in) auto
  then obtain x where "x \<in> set xs" "f x = Max (f ` set xs)"
    by auto
  then show ?thesis
    by (metis List.finite_set Max_ge finite_imageI imageI)
qed

lemma first_largest_props:
  assumes "xs \<noteq> []"
  shows "first_largest f xs \<in> set xs" and "\<forall>y \<in> set xs. f y \<le> f (first_largest f xs)"
proof -
  let ?P = "\<lambda>x. list_all (\<lambda>y. f y \<le> f x) xs"
  from largest_exists [OF assms, of f] have "filter ?P xs \<noteq> []"
    by (auto simp: filter_empty_conv list_all_iff)
  then have "hd (filter ?P xs) \<in> set (filter ?P xs)"
    by (rule hd_in_set)
  then show "first_largest f xs \<in> set xs" and "\<forall>y \<in> set xs. f y \<le> f (first_largest f xs)"
    by (auto simp: first_largest_def list_all_iff)
qed

lemma first_largest_snoc_new:
  assumes "\<forall>y \<in> set xs. f y < f x"
  shows "first_largest f (xs @ [x]) = x"
proof -
  have "filter (\<lambda>z. list_all (\<lambda>y. f y \<le> f z) (xs @ [x])) xs = []"
    using assms by (auto simp: filter_empty_conv)
  moreover have "list_all (\<lambda>y. f y \<le> f x) (xs @ [x])"
    using assms by (auto simp: list_all_iff intro: less_imp_le)
  ultimately show ?thesis
    by (simp add: first_largest_def)
qed

lemma first_largest_snoc_old:
  assumes "xs \<noteq> []" and "f x \<le> f (first_largest f xs)"
  shows "first_largest f (xs @ [x]) = first_largest f xs"
proof -
  let ?P = "\<lambda>z. list_all (\<lambda>y. f y \<le> f z) xs"
  let ?Q = "\<lambda>z. list_all (\<lambda>y. f y \<le> f z) (xs @ [x])"
  note p = first_largest_props [OF assms(1), of f]
  have "filter ?Q xs = filter ?P xs"
  proof (rule filter_cong [OF refl])
    fix z assume "z \<in> set xs"
    show "?Q z = ?P z"
    proof
      assume "?Q z" then show "?P z" by simp
    next
      assume z: "?P z"
      with p(1) have "f (first_largest f xs) \<le> f z"
        by (simp add: list_all_iff)
      with assms(2) z show "?Q z" by simp
    qed
  qed
  moreover have "filter ?P xs \<noteq> []"
    using p by (auto simp: filter_empty_conv list_all_iff)
  ultimately show ?thesis
    by (simp add: first_largest_def)
qed

text \<open>
  The loop shared by \<open>detectCategory\<close> and \<open>selectBestImage\<close>: a candidate replaces the
  best one only when its value is strictly larger.
\<close>

lemma foldl_first_largest:
  "foldl (\<lambda>(b, m) x. if f x > m then (g x, f x) else (b, m)) (b0, m0) xs =
     (if list_all (\<lambda>x. f x \<le> m0) xs then (b0, m0)
      else (g (first_largest f xs), f (first_largest f xs)))"
proof (induction xs rule: rev_induct)
  case Nil
  then show ?case by simp
next
  case (snoc x xs)
  show ?case
  proof (cases "list_all (\<lambda>x. f x \<le> m0) xs")
    case True
    show ?thesis
    proof (cases "f x > m0")
      case gt: True
      with True have "\<forall>y \<in> set xs. f y < f x"
        by (auto simp: list_all_iff)
      then have "first_largest f (xs @ [x]) = x"
        by (rule first_largest_snoc_new)
      with True gt snoc show ?thesis by simp
    next
      case False
      with True snoc show ?thesis by simp
    qed
  next
    case False
    then have ne: "xs \<noteq> []" by auto
    note p = first_largest_props [OF ne, of f]
    show ?thesis
    proof (cases "f x > f (first_largest f xs)")
      case True
      with p(2) have "\<forall>y \<in> set xs. f y < f x"
        by (meson le_less_trans)
      then have "first_largest f (xs @ [x]) = x"
        by (rule first_largest_snoc_new)
      with True False snoc show ?thesis by simp
    next
      case le: False
      then have "first_largest f (xs @ [x]) = first_largest f xs"
        using first_largest_snoc_old [OF ne, of f x] by simp
      with le False snoc show ?thesis by simp
    qed
  qed
qed

lemma first_largest_all_zero:
  "xs \<noteq> [] \<Longrightarrow> list_all (\<lambda>x. f x \<le> 0) xs \<Longrightarrow> first_largest f xs = hd xs"
  by (cases xs) (auto simp: first_largest_def list_all_iff)

section \<open>Eyecatch selection\<close>

lemma selectBestImage_fold:
  "(\<lambda>(best, bestSize) p.
       case statSize p of
         Some sz \<Rightarrow> if sz > bestSize then (p, sz) else (best, bestSize)
       | None \<Rightarrow> (best, bestSize))
   = (\<lambda>(b, m) x. if size0 statSize x > m then (x, size0 statSize x) else (b, m))"
  by (auto simp: fun_eq_iff size0_def split: option.splits)

text \<open>
  Claim C2, as amended. \<open>selectBestImage\<close> returns none for the empty sequence and the
  path itself for a single path; otherwise it returns the earliest path of largest size
  in a first-max scan, where a path whose size cannot be determined counts as size
  zero: such a path never replaces the candidate and never makes the operation fail,
  but since the scan starts from the first path with size zero, the first path is
  returned, whether or not its size can be determined, when no path has a known size
  above zero.
\<close>

theorem selectBestImage_first_largest:
  "selectBestImage statSize imagePaths =
     (if imagePaths = [] then None else Some (first_largest (size0 statSize) imagePaths))"
proof (cases imagePaths)
  case Nil
  then show ?thesis by (simp add: selectBestImage_def)
next
  case (Cons p ps)
  show ?thesis
  proof (cases ps)
    case Nil
    with Cons show ?thesis
      by (simp add: selectBestImage_def first_largest_def)
  next
    case (Cons q qs)
    with \<open>imagePaths = p # ps\<close> have len: "length imagePaths \<noteq> 0" "length imagePaths \<noteq> 1"
      and ne: "imagePaths \<noteq> []" and hd: "imagePaths ! 0 = hd imagePaths"
      by simp_all
    show ?thesis
      unfolding selectBestImage_def selectBestImage_fold
      using len ne hd first_largest_all_zero [OF ne, of "size0 statSize"]
      by (simp add: foldl_first_largest [where g = "\<lambda>x. x"])
  qed
qed

text \<open>
  Claim C2 as stated fails: of a missing file followed by an empty file, the claim
  selects the empty file, the only one whose size can be determined, and
  \<open>selectBestImage\<close> returns the missing one.
\<close>

theorem selectBestImage_returns_unknown:
  "example_stat (asc ''missing.png'') = None
   \<and> example_stat (asc ''empty.png'') = Some 0
   \<and> selectBestImage example_stat [asc ''missing.png'', asc ''empty.png'']
       = Some (asc ''missing.png'')
   \<and> selectBest example_stat [asc ''missing.png'', asc ''empty.png'']
       = Some (asc ''empty.png'')"
  by (simp add: selectBestImage_def selectBest_def example_stat_def first_largest_def
        size0_def asc_def)

section \<open>Category\<close>

lemma ci_occurrences_skip:
  "list_all (\<lambda>c. canon c \<noteq> canon k) pre
     \<Longrightarrow> ci_occurrences (k # ks) (pre @ r) = ci_occurrences (k # ks) r"
  by (induction pre) auto

lemma matchAt_take:
  "matchAt kw s \<Longrightarrow> length kw \<le> length s \<and> map canon (take (length kw) s) = map canon kw"
  by (induction kw s rule: matchAt.induct) auto

lemma matchAt_skip:
  assumes "matchAt (k # ks) (c # cs)" and "list_all (\<lambda>x. canon x \<noteq> canon k) ks"
  shows "ci_occurrences (k # ks) cs = ci_occurrences (k # ks) (drop (length ks) cs)"
proof -
  from assms(1) have m: "map canon (take (length ks) cs) = map canon ks"
    using matchAt_take [of ks cs] by simp
  have "list_all (\<lambda>x. canon x \<noteq> canon k) (take (length ks) cs)"
  proof -
    have "list_all (\<lambda>y. y \<noteq> canon k) (map canon ks)"
      using assms(2) by (simp add: list_all_iff)
    then have "list_all (\<lambda>y. y \<noteq> canon k) (map canon (take (length ks) cs))"
      by (simp only: m)
    then show ?thesis by (simp add: list_all_iff)
  qed
  then have "ci_occurrences (k # ks) (take (length ks) cs @ drop (length ks) cs)
      = ci_occurrences (k # ks) (drop (length ks) cs)"
    by (rule ci_occurrences_skip)
  then show ?thesis by simp
qed

text \<open>
  For a keyword that cannot overlap itself, the matches the global search finds are
  all its occurrences.
\<close>

lemma matchCount_occurrences:
  "first_unique kw \<Longrightarrow> matchCount kw s = ci_occurrences kw s"
proof (induction kw s rule: matchCount.induct)
  case (1 kw)
  then show ?case by (auto simp: first_unique_def)
next
  case (2 kw c cs)
  from 2(3) obtain k ks where kw: "kw = k # ks" and u: "list_all (\<lambda>x. canon x \<noteq> canon k) ks"
    by (auto simp: first_unique_def split: list.splits)
  show ?case
  proof (cases "matchAt kw (c # cs)")
    case True
    with 2 have "matchCount kw (drop (length kw - 1) cs) = ci_occurrences kw (drop (length kw - 1) cs)"
      by simp
    moreover have "ci_occurrences kw cs = ci_occurrences kw (drop (length kw - 1) cs)"
      using matchAt_skip [OF True [unfolded kw] u] by (simp add: kw)
    ultimately show ?thesis using True by simp
  next
    case False
    with 2 show ?thesis by simp
  qed
qed

lemma keywords_first_unique:
  "list_all first_unique kw_interview" "list_all first_unique kw_culture"
  "list_all first_unique kw_system" "list_all first_unique kw_event"
  by (simp_all add: kw_interview_def kw_culture_def kw_system_def kw_event_def
        first_unique_def canon_def)

lemma sum_matchCount:
  "list_all first_unique kws \<Longrightarrow>
     sum_list (map (\<lambda>kw. matchCount kw text) kws)
       = sum_list (map (\<lambda>kw. ci_occurrences kw text) kws)"
  by (induction kws) (simp_all add: matchCount_occurrences)

lemma keywords_of_simps:
  "keywords_of cat_interview = kw_interview" "keywords_of cat_culture = kw_culture"
  "keywords_of cat_system = kw_system" "keywords_of cat_event = kw_event"
  by (simp_all add: keywords_of_def CATEGORY_KEYWORDS_def
        cat_interview_def cat_culture_def cat_system_def cat_event_def)

lemma scores_score: "scores text = map (\<lambda>cat. (cat, score text cat)) CATEGORIES"
  by (simp add: scores_def CATEGORY_KEYWORDS_def CATEGORIES_def score_def keywords_of_simps
        sum_matchCount keywords_first_unique)

lemma first_largest_map:
  "xs \<noteq> [] \<Longrightarrow>
     first_largest snd (map (\<lambda>x. (x, h x)) xs) = (first_largest h xs, h (first_largest h xs))"
proof -
  assume ne: "xs \<noteq> []"
  let ?P = "\<lambda>x. list_all (\<lambda>y. h y \<le> h x) xs"
  have "filter ?P xs \<noteq> []"
    using first_largest_props [OF ne, of h] by (auto simp: filter_empty_conv list_all_iff)
  then show ?thesis
    by (simp add: first_largest_def filter_map o_def list_all_iff hd_map)
qed

text \<open>
  Claim C7. For every input text, \<open>detectCategory\<close> gives each of the four labels the sum,
  over the keywords of the label, of the number of occurrences of the keyword in the
  whole text, letter case ignored, and returns the label of highest score; among labels
  that tie for the highest score it returns the first in the order of \<open>CATEGORIES\<close>, and
  so the first label of all when every score is zero.
\<close>

theorem detectCategory_first_largest:
  "detectCategory text = deriveCategory text"
proof -
  have ne: "CATEGORIES \<noteq> []" and h: "CATEGORIES ! 0 = hd CATEGORIES"
    by (simp_all add: CATEGORIES_def)
  have fold: "(\<lambda>(best, bestScore) (cat, score).
                  if score > bestScore then (cat, score) else (best, bestScore))
     = (\<lambda>(b, m) x. if snd x > m then (fst x, snd x) else (b, m))"
    by (auto simp: fun_eq_iff)
  show ?thesis
    unfolding detectCategory_def fold foldl_first_largest deriveCategory_def scores_score
    using first_largest_all_zero [OF ne, of "score text"]
    by (simp add: first_largest_map [OF ne] list_all_iff h)
qed

section \<open>Description\<close>

lemma trimEnd_append:
  "trimEnd (a @ b) = (if trimEnd b = [] then trimEnd a else a @ trimEnd b)"
  by (auto simp: trimEnd_def dropWhile_append)

lemma trimEnd_nonws: "\<forall>x \<in> set w. \<not> isWS x \<Longrightarrow> trimEnd w = w"
  by (cases w rule: rev_cases) (auto simp: trimEnd_def)

lemma collapse_ws_take:
  "collapse_ws xs = takeWhile (\<lambda>x. \<not> isWS x) xs @ collapse_ws (dropWhile (\<lambda>x. \<not> isWS x) xs)"
  by (induction xs) auto

lemma trimStart_collapse_ws: "trimStart (collapse_ws s) = collapse_ws (dropWhile isWS s)"
proof (cases s)
  case Nil
  then show ?thesis by (simp add: trimStart_def)
next
  case (Cons c cs)
  show ?thesis
  proof (cases "isWS c")
    case True
    have sp: "isWS 0x20" by (simp add: isWS_def)
    have "dropWhile isWS (collapse_ws (dropWhile isWS cs)) = collapse_ws (dropWhile isWS cs)"
    proof (cases "dropWhile isWS cs")
      case Nil
      then show ?thesis by (simp del: dropWhile_eq_Nil_conv)
    next
      case (Cons d ds)
      then have "\<not> isWS d"
        using hd_dropWhile [of isWS cs] by simp
      with Cons show ?thesis by simp
    qed
    with True Cons sp show ?thesis by (simp add: trimStart_def)
  next
    case False
    with Cons show ?thesis by (simp add: trimStart_def)
  qed
qed

lemma join_Cons_nonempty: "join sep ((c # w) # rest) \<noteq> []"
  by (cases rest) auto

lemma tokens_nonempty: "tokens s \<noteq> [] \<Longrightarrow> join (asc '' '') (tokens s) \<noteq> []"
proof (cases "dropWhile isWS s")
  case Nil
  assume "tokens s \<noteq> []"
  with Nil show ?thesis by (simp add: tokens.simps [of s] del: dropWhile_eq_Nil_conv)
next
  case (Cons c cs)
  then show ?thesis
    by (simp add: tokens.simps [of s] join_Cons_nonempty del: dropWhile_eq_Nil_conv)
qed

lemma trimEnd_collapse_ws:
  "trimEnd (collapse_ws (dropWhile isWS s)) = join (asc '' '') (tokens s)"
proof (induction s rule: tokens.induct)
  case (1 s)
  show ?case
  proof (cases "dropWhile isWS s")
    case Nil
    then show ?thesis
      by (simp add: tokens.simps [of s] trimEnd_def del: dropWhile_eq_Nil_conv)
  next
    case (Cons c cs)
    let ?w = "c # takeWhile (\<lambda>x. \<not> isWS x) cs"
    let ?r = "dropWhile (\<lambda>x. \<not> isWS x) cs"
    let ?X = "collapse_ws (dropWhile isWS ?r)"
    from Cons have c: "\<not> isWS c"
      using hd_dropWhile [of isWS s] by simp
    have w: "\<forall>x \<in> set ?w. \<not> isWS x"
      using c by (auto dest: set_takeWhileD)
    have tok: "tokens s = ?w # tokens ?r"
      using Cons by (simp add: tokens.simps [of s])
    have ih: "trimEnd ?X = join (asc '' '') (tokens ?r)"
      using 1 [OF Cons] .
    have cw: "collapse_ws (c # cs) = ?w @ collapse_ws ?r"
      using c collapse_ws_take [of cs] by simp
    show ?thesis
    proof (cases ?r)
      case Nil
      have "tokens [] = []" by (simp add: tokens.simps [of "[]"])
      with Nil Cons cw tok show ?thesis
        using trimEnd_nonws [OF w] by (simp del: dropWhile_eq_Nil_conv)
    next
      case r: (Cons d ds)
      then have d: "isWS d"
        using hd_dropWhile [of "\<lambda>x. \<not> isWS x" cs] by simp
      with r have cr: "collapse_ws ?r = 0x20 # ?X"
        by simp
      have sp: "trimEnd [0x20] = []" by (simp add: trimEnd_def isWS_def)
      show ?thesis
      proof (cases "tokens ?r")
        case Nil
        with ih have "trimEnd ?X = []" by simp
        then have "trimEnd (0x20 # ?X) = []"
          using trimEnd_append [of "[0x20]" ?X] sp by simp
        then have "trimEnd (?w @ 0x20 # ?X) = ?w"
          using trimEnd_append [of ?w "0x20 # ?X"] trimEnd_nonws [OF w] by simp
        with Nil Cons cw cr tok show ?thesis by (simp del: dropWhile_eq_Nil_conv)
      next
        case t: (Cons y ys)
        then have "join (asc '' '') (tokens ?r) \<noteq> []"
          using tokens_nonempty [of ?r] by simp
        with ih have ne: "trimEnd ?X \<noteq> []" by simp
        then have "trimEnd (0x20 # ?X) = 0x20 # trimEnd ?X"
          using trimEnd_append [of "[0x20]" ?X] by simp
        then have "trimEnd (?w @ 0x20 # ?X) = ?w @ 0x20 # trimEnd ?X"
          using trimEnd_append [of ?w "0x20 # ?X"] by simp
        with t Cons cw cr tok ih show ?thesis
          by (simp add: asc_def del: dropWhile_eq_Nil_conv)
      qed
    qed
  qed
qed

text \<open>Collapsing the white space and trimming leaves the words, separated by single spaces.\<close>

lemma trim_collapse_ws: "trim (collapse_ws s) = join (asc '' '') (tokens s)"
  by (simp add: trim_def trimStart_collapse_ws trimEnd_collapse_ws)

text \<open>
  Claim C8. For every input text, \<open>generateDescription\<close> joins the lines that are not
  blank, the first of them left out, with single spaces, collapses each run of white
  space to one space and trims, which leaves the words of these lines separated by
  single spaces; it returns the empty string when that body is empty, and the first 117
  characters of the body followed by the ellipsis marker when the body has more than 120
  characters. The description never has more than 120 characters.
\<close>

theorem generateDescription_spec:
  "generateDescription text = deriveDescription text
   \<and> length (generateDescription text) \<le> 120"
proof -
  have "generateDescription text = deriveDescription text"
    by (auto simp: generateDescription_def deriveDescription_def Let_def trim_collapse_ws
          ellipsize_def blank_def drop_Suc)
  then show ?thesis
    by (simp add: deriveDescription_def length_ellipsize)
qed

section \<open>The publishing script\<close>

lemmas world_eval =
  example_world_def example_exists_def example_extname_def example_upload_def
  example_create_def example_docx_def

lemma news_invalid: "asc ''news'' \<notin> set CATEGORIES"
  by (simp add: CATEGORIES_def cat_interview_def cat_culture_def cat_system_def cat_event_def
        asc_def)

text \<open>
  An override outside the four labels always ends the run with exit status 1; for a
  source that is not a \<open>.docx\<close> file no request precedes the exit.
\<close>

lemma main_invalid_category_exits:
  assumes "opt_category opts = Some c" and "c \<noteq> []" and "c \<notin> set CATEGORIES"
  shows "fst (main w opts) = Exit 1"
  using assms
  by (auto simp: main_def Let_def js_or_def split: option.splits prod.splits)

lemma main_text_invalid_category:
  assumes "opt_category opts = Some c" and "c \<noteq> []" and "c \<notin> set CATEGORIES"
    and "opt_text opts = Some p" and "toLowerCase w (path_extname w p) \<noteq> asc ''.docx''"
  shows "main w opts = (Exit 1, [])"
  using assms
  by (auto simp: main_def Let_def js_or_def split: option.splits prod.splits)

text \<open>
  Claim C1 at the input \<open>--text blog.docx --category news\<close>, where \<open>blog.docx\<close> embeds
  one PNG image: \<open>news\<close> is none of the four labels, and the run ends with exit status 1
  only after \<open>processDocx\<close> has uploaded the embedded image.
\<close>

theorem main_docx_upload_before_exit:
  "asc ''news'' \<notin> set CATEGORIES
   \<and> main example_world docx_opts
       = (Exit 1, [Upload (asc ''docx-image-1.png'') (asc ''image/png'')])"
  using news_invalid
  by (simp add: main_def docx_opts_def world_eval Let_def processDocx_def convertImage_def
        uploadImageBuffer_def digits.simps [of "Suc 0"] js_or_def asc_def)

lemma generateTitle_hello: "generateTitle hello_text = asc ''Hello''"
  by (simp add: generateTitle_def hello_text_def Let_def strip_heading_def trim_def
        trimStart_def trimEnd_def isWS_def asc_def)

lemma textToHtml_hello: "textToHtml hello_text = hello_html"
  by (simp add: hello_text_def hello_html_def textToHtml_eval)

lemma generateDescription_hello: "generateDescription hello_text = hello_description"
  by (simp add: generateDescription_def hello_text_def hello_description_def Let_def trim_def
        trimStart_def trimEnd_def isWS_def asc_def)

lemma detectCategory_hello: "detectCategory hello_text = cat_system"
  by (simp add: detectCategory_def scores_def CATEGORY_KEYWORDS_def CATEGORIES_def
        hello_text_def kw_interview_def kw_culture_def kw_system_def kw_event_def
        canon_def asc_def)

lemma hello_counts:
  "occurrences (asc ''<h'') hello_html = 1" "occurrences (asc ''<p>'') hello_html = 1"
  by (simp_all add: hello_html_def asc_def)

lemma cat_system_valid: "cat_system \<in> set CATEGORIES"
  by (simp add: CATEGORIES_def)

text \<open>
  Claim C9. For the text \<open># Hello\<close>, an empty line, \<open>This is a test about\<close> followed by
  U+7814 U+4FEE and a full stop, and a final line break, with no category override, the
  run assembles a record with category U+5236 U+5EA6, title \<open>Hello\<close>, the second line as
  description, and an HTML content that is one \<open>h1\<close> element and one \<open>p\<close> element: it
  contains one heading tag and one paragraph tag.
\<close>

theorem hello_pipeline:
  "main example_world hello_opts =
     (DryRun \<lparr>post_title = asc ''Hello'', post_content = hello_html,
              post_category = [cat_system], post_description = hello_description,
              post_is_featured = False, post_writer = None, post_eyecatch = None\<rparr>, [])
   \<and> occurrences (asc ''<h'') hello_html = 1
   \<and> occurrences (asc ''<p>'') hello_html = 1"
proof (intro conjI)
  show "main example_world hello_opts =
     (DryRun \<lparr>post_title = asc ''Hello'', post_content = hello_html,
              post_category = [cat_system], post_description = hello_description,
              post_is_featured = False, post_writer = None, post_eyecatch = None\<rparr>, [])"
    using cat_system_valid
    by (simp add: main_def hello_opts_def world_eval Let_def processText_def eyecatch_step_def
          js_or_def truthy_def generateTitle_hello detectCategory_hello
          generateDescription_hello textToHtml_hello asc_def)
  show "occurrences (asc ''<h'') hello_html = 1" and "occurrences (asc ''<p>'') hello_html = 1"
    by (rule hello_counts)+
qed

section \<open>Missing configuration\<close>

lemma client_unconfigured:
  "\<not> truthy (env MICROCMS_SERVICE_DOMAIN) \<or> \<not> truthy (env MICROCMS_API_KEY)
     \<Longrightarrow> client env = None"
  by (auto simp: client_def truthy_def js_or_def Let_def split: option.splits)

lemma env_names_distinct:
  "SLACK_WEBHOOK_URL \<noteq> MICROCMS_SERVICE_DOMAIN" "SLACK_WEBHOOK_URL \<noteq> MICROCMS_API_KEY"
  by (simp_all add: SLACK_WEBHOOK_URL_def MICROCMS_SERVICE_DOMAIN_def MICROCMS_API_KEY_def
        asc_def)

text \<open>
  Claim C3, as amended. When the service domain or the API key is unset or empty, the
  publishing script ends at startup with exit status 1 and no request. The read client
  does not end: \<open>getBlogs\<close> then returns an empty result and \<open>getBlogDetail\<close> throws, both
  without any request. The notification handler does not read the two variables.
\<close>

theorem unconfigured_behaviour:
  "\<not> truthy (env MICROCMS_SERVICE_DOMAIN) \<or> \<not> truthy (env MICROCMS_API_KEY) \<Longrightarrow>
     script env w opts = (Exit 1, [])
   \<and> getBlogs env sdk_list queries
       = (Inr \<lparr>totalCount = 0, offset = 0, limit = 0, contents = []\<rparr>, [])
   \<and> getBlogDetail env sdk_detail contentId
       = (Inl (Error (asc ''microCMS client is not configured'')), [])
   \<and> handler (env(MICROCMS_SERVICE_DOMAIN := None, MICROCMS_API_KEY := None)) now fetch req
       = handler env now fetch req"
proof -
  assume h: "\<not> truthy (env MICROCMS_SERVICE_DOMAIN) \<or> \<not> truthy (env MICROCMS_API_KEY)"
  then have c: "client env = None"
    by (rule client_unconfigured)
  have "script env w opts = (Exit 1, [])"
    using h by (auto simp: script_def)
  moreover have "getBlogs env sdk_list queries
       = (Inr \<lparr>totalCount = 0, offset = 0, limit = 0, contents = []\<rparr>, [])"
    by (simp add: getBlogs_def c)
  moreover have "getBlogDetail env sdk_detail contentId
       = (Inl (Error (asc ''microCMS client is not configured'')), [])"
    by (simp add: getBlogDetail_def c)
  moreover have "handler (env(MICROCMS_SERVICE_DOMAIN := None, MICROCMS_API_KEY := None)) now fetch req
       = handler env now fetch req"
    using env_names_distinct by (simp add: handler_def)
  ultimately show ?thesis by blast
qed

text \<open>The amended claim C3 with no variable set.\<close>

theorem unconfigured_behaviour_witness:
  "no_env MICROCMS_SERVICE_DOMAIN = None
   \<and> script no_env example_world hello_opts = (Exit 1, [])
   \<and> getBlogs no_env sdk_down None
       = (Inr \<lparr>totalCount = 0, offset = 0, limit = 0, contents = []\<rparr>, [])
   \<and> getBlogDetail no_env sdk_detail_down (asc ''abc'')
       = (Inl (Error (asc ''microCMS client is not configured'')), [])"
proof -
  have h: "\<not> truthy (no_env MICROCMS_SERVICE_DOMAIN) \<or> \<not> truthy (no_env MICROCMS_API_KEY)"
    by (simp add: no_env_def truthy_def)
  show ?thesis
    using unconfigured_behaviour [OF h, of example_world hello_opts sdk_down None
        sdk_detail_down "asc ''abc''" "[]" fetch_down get_request]
    by (simp add: no_env_def)
qed

text \<open>
  Claim C3 as stated fails: with neither variable set, \<open>getBlogs\<close> returns a result, the
  empty list of entries, and no error.
\<close>

theorem getBlogs_unconfigured_succeeds:
  "no_env MICROCMS_SERVICE_DOMAIN = None \<and> no_env MICROCMS_API_KEY = None
   \<and> getBlogs no_env sdk_down None
       = (Inr \<lparr>totalCount = 0, offset = 0, limit = 0, contents = []\<rparr>, [])"
  by (simp add: getBlogs_def client_def no_env_def js_or_def)

section \<open>The notification handler\<close>

text \<open>
  Claim C10. For every request whose method is not \<open>POST\<close>, the handler responds with
  status 405 and the error body \<open>Method not allowed\<close>, and has no effect: no request to
  the webhook and nothing else.
\<close>

theorem handler_non_post:
  "req_method req \<noteq> asc ''POST'' \<Longrightarrow>
     handler env now fetch req = (respond 405 (ErrorJson (asc ''Method not allowed'')), [])"
  by (simp add: handler_def)

text \<open>Claim C10 for a \<open>GET\<close> request.\<close>

theorem handler_non_post_witness:
  "req_method get_request \<noteq> asc ''POST''
   \<and> handler no_env [] fetch_down get_request
       = (\<lparr>res_status = 405, res_json = ErrorJson (asc ''Method not allowed'')\<rparr>, [])"
proof -
  have m: "req_method get_request \<noteq> asc ''POST''"
    by (simp add: get_request_def asc_def)
  show ?thesis
    using m handler_non_post [OF m, of no_env "[]" fetch_down] by (simp add: respond_def)
qed

end
